theory Spec2Isabelle
  imports Complex_Main "HOL-Library.Char_ord" "HOL-Library.List_Lexorder" "HOL-Library.Log_Nat"
begin

section \<open>Numbers of the script\<close>

text \<open>
  The script \<^verbatim>\<open>scripts/fetch_data.py\<close> works on Python and numpy floats, and the page it
  writes works on JavaScript numbers: both are IEEE 754 binary64 values. A finite value
  other than zero is \<open>Fin\<close> of the real number it stands for, \<open>+0.0\<close> is \<open>Fin 0\<close>, \<open>-0.0\<close> is
  \<open>NegZero\<close>, and there are the two infinities and NaN. \<open>None\<close> (Python) and \<open>null\<close>
  (JavaScript) are the \<open>None\<close> of an option; \<^verbatim>\<open>json.dumps\<close> writes Python's \<open>None\<close> as
  \<open>null\<close> and a float as the number literal that reads back as the same value.
\<close>

datatype pyfloat = Fin real | NegZero | PosInf | NegInf | NaN

text \<open>\<^verbatim>\<open>x >= c\<close> and \<^verbatim>\<open>x <= c\<close> for a number \<open>x\<close> and a finite constant \<open>c\<close>:
  every comparison with NaN is false, in Python and in JavaScript, and \<open>-0.0\<close> compares
  as zero.\<close>

fun fge :: "pyfloat \<Rightarrow> real \<Rightarrow> bool" where
  "fge (Fin r) c = (c \<le> r)"
| "fge NegZero c = (c \<le> 0)"
| "fge PosInf c = True"
| "fge NegInf c = False"
| "fge NaN c = False"

fun fle :: "pyfloat \<Rightarrow> real \<Rightarrow> bool" where
  "fle (Fin r) c = (r \<le> c)"
| "fle NegZero c = (0 \<le> c)"
| "fle PosInf c = False"
| "fle NegInf c = True"
| "fle NaN c = False"

subsection \<open>Rounding to binary64\<close>

text \<open>
  An arithmetic operation returns the exact result rounded to the nearest binary64
  value, ties to the value with an even significand. \<open>pow2 e\<close> is \<open>2\<close> to the power
  \<open>e\<close>, and \<open>expo x\<close> is the exponent of \<open>x \<noteq> 0\<close>: the \<open>e\<close> with
  \<open>pow2 e \<le> \<bar>x\<bar> < pow2 (e + 1)\<close>. The significand has 53 bits, so the values around \<open>x\<close>
  are the multiples of \<open>pow2 (e - 52)\<close>; below the smallest normal exponent \<open>-1022\<close> the
  spacing stays \<open>pow2 (-1074)\<close> (subnormal values); a rounded magnitude of \<open>pow2 1024\<close> or
  more is an infinity; a result that rounds to zero keeps the sign of \<open>x\<close>.
\<close>

definition pow2 :: "int \<Rightarrow> real" where
  "pow2 e = (if 0 \<le> e then 2 ^ nat e else 1 / 2 ^ nat (- e))"

definition round_half_even :: "real \<Rightarrow> int" where
  "round_half_even y =
     (let f = \<lfloor>y\<rfloor>; r = y - of_int f
      in if r < 1 / 2 then f else if 1 / 2 < r then f + 1 else if even f then f else f + 1)"

definition expo :: "real \<Rightarrow> int" where
  "expo x =
     (if 1 \<le> \<bar>x\<bar> then bitlen \<lfloor>\<bar>x\<bar>\<rfloor> - 1 else - bitlen (\<lceil>1 / \<bar>x\<bar>\<rceil> - 1))"

definition round64 :: "real \<Rightarrow> pyfloat" where
  "round64 x =
     (let e = max (expo x) (- 1022);
          q = pow2 (e - 52);
          n = round_half_even (\<bar>x\<bar> / q);
          m = of_int n * q
      in if pow2 1024 \<le> m then (if 0 < x then PosInf else NegInf)
         else if n = 0 then (if 0 < x then Fin 0 else NegZero)
         else Fin (if 0 < x then m else - m))"

subsection \<open>Subtraction, division and multiplication\<close>

fun is_inf :: "pyfloat \<Rightarrow> bool" where
  "is_inf PosInf = True"
| "is_inf NegInf = True"
| "is_inf x = False"

fun is_zero :: "pyfloat \<Rightarrow> bool" where
  "is_zero (Fin r) = (r = 0)"
| "is_zero NegZero = True"
| "is_zero x = False"

text \<open>The sign bit of a value that is not NaN.\<close>

fun negative :: "pyfloat \<Rightarrow> bool" where
  "negative (Fin r) = (r < 0)"
| "negative NegZero = True"
| "negative NegInf = True"
| "negative x = False"

text \<open>The real number of a finite value.\<close>

fun real_of :: "pyfloat \<Rightarrow> real" where
  "real_of (Fin r) = r"
| "real_of x = 0"

definition zero_of :: "bool \<Rightarrow> pyfloat" where
  "zero_of neg = (if neg then NegZero else Fin 0)"

definition inf_of :: "bool \<Rightarrow> pyfloat" where
  "inf_of neg = (if neg then NegInf else PosInf)"

text \<open>
  \<open>a - b\<close>. An exact difference of zero is \<open>+0.0\<close>, except for \<open>(-0.0) - (+0.0)\<close>.
\<close>

definition fsub :: "pyfloat \<Rightarrow> pyfloat \<Rightarrow> pyfloat" where
  "fsub a b =
     (if a = NaN \<or> b = NaN then NaN
      else if is_inf a then (if is_inf b \<and> negative a = negative b then NaN else a)
      else if is_inf b then inf_of (\<not> negative b)
      else if real_of a - real_of b \<noteq> 0 then round64 (real_of a - real_of b)
      else if a = NegZero \<and> b = Fin 0 then NegZero
      else Fin 0)"

text \<open>
  \<open>a / b\<close>. A division by zero does not raise on numpy floats: it gives an infinity,
  or NaN for \<open>0 / 0\<close>. The sign of a zero or an infinity is the product of the signs.
\<close>

definition fdiv :: "pyfloat \<Rightarrow> pyfloat \<Rightarrow> pyfloat" where
  "fdiv a b =
     (if a = NaN \<or> b = NaN then NaN
      else if is_inf a then (if is_inf b then NaN else inf_of (negative a \<noteq> negative b))
      else if is_inf b then zero_of (negative a \<noteq> negative b)
      else if is_zero b then (if is_zero a then NaN else inf_of (negative a \<noteq> negative b))
      else if is_zero a then zero_of (negative a \<noteq> negative b)
      else round64 (real_of a / real_of b))"

text \<open>\<open>a * b\<close>.\<close>

definition fmul :: "pyfloat \<Rightarrow> pyfloat \<Rightarrow> pyfloat" where
  "fmul a b =
     (if a = NaN \<or> b = NaN then NaN
      else if is_inf a \<or> is_inf b then
        (if is_zero a \<or> is_zero b then NaN else inf_of (negative a \<noteq> negative b))
      else if is_zero a \<or> is_zero b then zero_of (negative a \<noteq> negative b)
      else round64 (real_of a * real_of b))"

section \<open>The classifier, server side (Python)\<close>

text \<open>
  \<^verbatim>\<open>
  def get_color(change_pct):
      if change_pct is None:   return "#9E9E9E"
      if change_pct >= 3:      return "#00873E"
      elif change_pct >= 1:    return "#4CAF50"
      elif change_pct >= 0:    return "#C8E6C9"
      elif change_pct >= -1:   return "#FFCDD2"
      elif change_pct >= -3:   return "#F44336"
      else:                    return "#B71C1C"
  \<close>
\<close>

definition get_color :: "pyfloat option \<Rightarrow> string" where
  "get_color change_pct =
     (case change_pct of
        None \<Rightarrow> ''#9E9E9E''
      | Some p \<Rightarrow>
          if fge p 3 then ''#00873E''
          else if fge p 1 then ''#4CAF50''
          else if fge p 0 then ''#C8E6C9''
          else if fge p (- 1) then ''#FFCDD2''
          else if fge p (- 3) then ''#F44336''
          else ''#B71C1C'')"

text \<open>
  \<^verbatim>\<open>
  def get_text_color(change_pct):
      if change_pct is None:                    return "#FFFFFF"
      if change_pct >= 3 or change_pct <= -3:   return "#FFFFFF"
      if change_pct >= 1 or change_pct <= -1:   return "#FFFFFF"
      return "#333333"
  \<close>
\<close>

definition get_text_color :: "pyfloat option \<Rightarrow> string" where
  "get_text_color change_pct =
     (case change_pct of
        None \<Rightarrow> ''#FFFFFF''
      | Some p \<Rightarrow>
          if fge p 3 \<or> fle p (- 3) then ''#FFFFFF''
          else if fge p 1 \<or> fle p (- 1) then ''#FFFFFF''
          else ''#333333'')"

text \<open>The specification's \<open>classify\<close>: the background colour paired with the text colour,
  as \<^verbatim>\<open>generate_html\<close> computes them for a tile (\<^verbatim>\<open>bg\<close>, \<^verbatim>\<open>fg\<close>).\<close>

definition classify :: "pyfloat option \<Rightarrow> string \<times> string" where
  "classify change_pct = (get_color change_pct, get_text_color change_pct)"

section \<open>The classifier, client side (JavaScript in the generated page)\<close>

text \<open>
  \<^verbatim>\<open>
  function getColor(pct) {
      if (pct === null) return '#9E9E9E';
      if (pct >= 3) return '#00873E';
      if (pct >= 1) return '#4CAF50';
      if (pct >= 0) return '#C8E6C9';
      if (pct >= -1) return '#FFCDD2';
      if (pct >= -3) return '#F44336';
      return '#B71C1C';
  }
  function getTextColor(pct) {
      if (pct === null) return '#FFFFFF';
      if (pct >= 3 || pct <= -3) return '#FFFFFF';
      if (pct >= 1 || pct <= -1) return '#FFFFFF';
      return '#333333';
  }
  \<close>
  The argument is a field of the embedded dataset: \<open>null\<close> or a number.
\<close>

fun getColor :: "pyfloat option \<Rightarrow> string" where
  "getColor None = ''#9E9E9E''"
| "getColor (Some pct) =
     (if fge pct 3 then ''#00873E''
      else if fge pct 1 then ''#4CAF50''
      else if fge pct 0 then ''#C8E6C9''
      else if fge pct (- 1) then ''#FFCDD2''
      else if fge pct (- 3) then ''#F44336''
      else ''#B71C1C'')"

fun getTextColor :: "pyfloat option \<Rightarrow> string" where
  "getTextColor None = ''#FFFFFF''"
| "getTextColor (Some pct) =
     (if fge pct 3 \<or> fle pct (- 3) then ''#FFFFFF''
      else if fge pct 1 \<or> fle pct (- 1) then ''#FFFFFF''
      else ''#333333'')"

section \<open>The table of the specification\<close>

text \<open>
  The bucket table of the specification's classifier section, written from its rows:
  absent, \<open>\<ge> 3\<close>, \<open>[1, 3)\<close>, \<open>[0, 1)\<close>, \<open>[-1, 0)\<close>, \<open>[-3, -1)\<close> and \<open>< -3\<close>, each with its background
  and its text colour.
\<close>

definition neutral_gray :: string where "neutral_gray = ''#9E9E9E''"
definition dark_green :: string where "dark_green = ''#00873E''"
definition green :: string where "green = ''#4CAF50''"
definition pale_green :: string where "pale_green = ''#C8E6C9''"
definition pale_red :: string where "pale_red = ''#FFCDD2''"
definition red :: string where "red = ''#F44336''"
definition dark_red :: string where "dark_red = ''#B71C1C''"
definition white :: string where "white = ''#FFFFFF''"
definition dark_gray :: string where "dark_gray = ''#333333''"

definition spec_table :: "real option \<Rightarrow> string \<times> string" where
  "spec_table cp =
     (case cp of
        None \<Rightarrow> (neutral_gray, white)
      | Some x \<Rightarrow>
          if 3 \<le> x then (dark_green, white)
          else if 1 \<le> x \<and> x < 3 then (green, white)
          else if 0 \<le> x \<and> x < 1 then (pale_green, dark_gray)
          else if - 1 \<le> x \<and> x < 0 then (pale_red, dark_gray)
          else if - 3 \<le> x \<and> x < - 1 then (red, white)
          else (dark_red, white))"

text \<open>The order of the buckets by "positivity": dark red lowest, dark green highest.
  The neutral gray of an absent value stands outside the order (rank 0 here, never
  compared).\<close>

definition positivity :: "string \<Rightarrow> nat" where
  "positivity bg =
     (if bg = dark_green then 5
      else if bg = green then 4
      else if bg = pale_green then 3
      else if bg = pale_red then 2
      else if bg = red then 1
      else 0)"

section \<open>The price resolver\<close>

text \<open>
  A stock of the roster is the dictionary \<^verbatim>\<open>{"code", "name", "sector"}\<close> that
  \<^verbatim>\<open>load_stock_list\<close> builds from a row of the CSV file; a result is that dictionary
  with the keys \<^verbatim>\<open>"price"\<close> and \<^verbatim>\<open>"change_pct"\<close> added.
\<close>

record stock =
  code :: string
  name :: string
  sector :: string

record result = stock +
  price :: "pyfloat option"
  change_pct :: "pyfloat option"

text \<open>\<^verbatim>\<open>{**stock, "price": p, "change_pct": c}\<close>\<close>

definition with_price :: "stock \<Rightarrow> pyfloat option \<Rightarrow> pyfloat option \<Rightarrow> result" where
  "with_price stock p c =
     \<lparr>code = code stock, name = name stock, sector = sector stock, price = p, change_pct = c\<rparr>"

text \<open>
  The batch result \<^verbatim>\<open>data = yf.download(ticker_str, period="5d", group_by="ticker")\<close>
  comes from the provider, outside the script. The script reads it in two ways only:
  \<^verbatim>\<open>data["Close"]\<close> when the roster has one ticker, \<^verbatim>\<open>data[code]["Close"]\<close> otherwise.
  Either read raises (the ticker is not in the frame, the frame has no such column, the
  structure is not the expected one) or gives the column of closes, a list of floats
  in which a missing entry (a non-trading day) is NaN.
\<close>

datatype py_error = KeyError | OtherError

type_synonym series = "pyfloat list"

record batch =
  whole_close :: "py_error + series"
  ticker_close :: "string \<Rightarrow> py_error + series"

text \<open>\<^verbatim>\<open>.dropna()\<close>: the entries that are not missing, in their order.\<close>

fun dropna :: "series \<Rightarrow> pyfloat list" where
  "dropna [] = []"
| "dropna (NaN # col) = dropna col"
| "dropna (x # col) = x # dropna col"

text \<open>
  \<^verbatim>\<open>((last_close - prev_close) / prev_close) * 100\<close>: three operations on floats, each
  rounded; the integer \<open>100\<close> is converted to the float \<open>100.0\<close>.
\<close>

definition pct_change :: "pyfloat \<Rightarrow> pyfloat \<Rightarrow> pyfloat" where
  "pct_change prev_close last_close =
     fmul (fdiv (fsub last_close prev_close) prev_close) (Fin 100)"

text \<open>
  The body of the \<^verbatim>\<open>try\<close> for one stock, with the number of tickers of the roster:
  \<^verbatim>\<open>
  if len(tickers) == 1: ticker_data = data
  else:                 ticker_data = data[code]
  closes = ticker_data["Close"].dropna()
  if len(closes) >= 2:
      prev_close = closes.iloc[-2]
      last_close = closes.iloc[-1]
      change_pct = ((last_close - prev_close) / prev_close) * 100
      results.append({**stock, "price": float(last_close), "change_pct": float(change_pct)})
  else:
      results.append({**stock, "price": None, "change_pct": None})
  \<close>
  It raises (\<open>Inl\<close>) or gives the result it appends (\<open>Inr\<close>); an exception can only come
  from the reads of \<^verbatim>\<open>data\<close>, before anything is appended.
\<close>

definition ticker_data :: "nat \<Rightarrow> batch \<Rightarrow> string \<Rightarrow> py_error + series" where
  "ticker_data n_tickers data c = (if n_tickers = 1 then whole_close data else ticker_close data c)"

definition try_body :: "nat \<Rightarrow> batch \<Rightarrow> stock \<Rightarrow> py_error + result" where
  "try_body n_tickers data stock =
     (case ticker_data n_tickers data (code stock) of
        Inl e \<Rightarrow> Inl e
      | Inr col \<Rightarrow>
          (let closes = dropna col in
           if 2 \<le> length closes then
             (let prev_close = closes ! (length closes - 2);
                  last_close = closes ! (length closes - 1);
                  change = pct_change prev_close last_close
              in Inr (with_price stock (Some last_close) (Some change)))
           else Inr (with_price stock None None)))"

text \<open>\<^verbatim>\<open>except Exception: results.append({**stock, "price": None, "change_pct": None})\<close>\<close>

definition resolve :: "nat \<Rightarrow> batch \<Rightarrow> stock \<Rightarrow> result" where
  "resolve n_tickers data stock =
     (case try_body n_tickers data stock of
        Inl e \<Rightarrow> with_price stock None None
      | Inr r \<Rightarrow> r)"

text \<open>
  \<^verbatim>\<open>
  def fetch_price_data(stocks):
      tickers = [s["code"] for s in stocks]
      data = yf.download(...)
      results = []
      for stock in stocks:
          ... results.append(...) ...
      return results
  \<close>
  The loop, with \<^verbatim>\<open>results\<close> as its accumulator.
\<close>

definition fetch_price_data :: "batch \<Rightarrow> stock list \<Rightarrow> result list" where
  "fetch_price_data data stocks =
     (let tickers = map code stocks
      in fold (\<lambda>stock results. results @ [resolve (length tickers) data stock]) stocks [])"

text \<open>A symbol is bad in a batch when its read raises or fewer than two closes are left.\<close>

definition bad_symbol :: "nat \<Rightarrow> batch \<Rightarrow> string \<Rightarrow> bool" where
  "bad_symbol n_tickers data c =
     (case ticker_data n_tickers data c of
        Inl e \<Rightarrow> True
      | Inr col \<Rightarrow> length (dropna col) < 2)"

section \<open>The renderer, server side (Python)\<close>

text \<open>
  How Python prints a float is outside the model; the three formats that
  \<^verbatim>\<open>generate_html\<close> uses are parameters: \<^verbatim>\<open>f'{x:+.2f}'\<close>, \<^verbatim>\<open>f'{x:,.0f}'\<close> and
  \<^verbatim>\<open>f'{x}'\<close>.
\<close>

record py_formats =
  signed_2f :: "pyfloat \<Rightarrow> string"
  grouped_0f :: "pyfloat \<Rightarrow> string"
  str_float :: "pyfloat \<Rightarrow> string"

text \<open>\<^verbatim>\<open>s.replace(".T", "")\<close>: every occurrence, found from the left, is removed.\<close>

fun replace_dot_T :: "string \<Rightarrow> string" where
  "replace_dot_T (a # b # cs) =
     (if a = CHR ''.'' \<and> b = CHR ''T'' then replace_dot_T cs else a # replace_dot_T (b # cs))"
| "replace_dot_T cs = cs"

text \<open>The yen sign of the price text, as its two bytes in UTF-8.\<close>

definition yen :: string where
  "yen = [CHR 0xC2, CHR 0xA5]"

text \<open>
  The local variables of the tile loop:
  \<^verbatim>\<open>
  change_str = f'{r["change_pct"]:+.2f}%' if r["change_pct"] is not None else "N/A"
  price_str = f'(yen){r["price"]:,.0f}' if r["price"] is not None else ""
  \<close>
  and the value of the \<^verbatim>\<open>data-change\<close> attribute,
  \<^verbatim>\<open>r["change_pct"] if r["change_pct"] is not None else 0\<close>.
\<close>

definition change_str :: "py_formats \<Rightarrow> result \<Rightarrow> string" where
  "change_str F r = (case change_pct r of Some x \<Rightarrow> signed_2f F x @ ''%'' | None \<Rightarrow> ''N/A'')"

definition price_str :: "py_formats \<Rightarrow> result \<Rightarrow> string" where
  "price_str F r = (case price r of Some x \<Rightarrow> yen @ grouped_0f F x | None \<Rightarrow> '''')"

definition data_change :: "py_formats \<Rightarrow> result \<Rightarrow> string" where
  "data_change F r = (case change_pct r of Some x \<Rightarrow> str_float F x | None \<Rightarrow> ''0'')"

text \<open>
  The tile of one result:
  \<^verbatim>\<open>
  bg = get_color(r["change_pct"])
  fg = get_text_color(r["change_pct"])
  code_short = r["code"].replace(".T", "")
  tiles.append(
      f'<div class="tile" data-sector="{r["sector"]}" '
      f'data-code="{code_short}" '
      f'data-change="{...}" '
      f'style="background-color:{bg};color:{fg}">'
      f'<div class="tile-name">{r["name"]}</div>'
      f'<div class="tile-code">{code_short}</div>'
      f'<div class="tile-change">{change_str}</div>'
      f'<div class="tile-price">{price_str}</div>'
      f'</div>')
  \<close>
\<close>

definition tile :: "py_formats \<Rightarrow> result \<Rightarrow> string" where
  "tile F r =
     (let bg = get_color (change_pct r);
          fg = get_text_color (change_pct r);
          code_short = replace_dot_T (code r)
      in ''<div class=\"tile\" data-sector=\"'' @ sector r @ ''\" ''
         @ ''data-code=\"'' @ code_short @ ''\" ''
         @ ''data-change=\"'' @ data_change F r @ ''\" ''
         @ ''style=\"background-color:'' @ bg @ '';color:'' @ fg @ ''\">''
         @ ''<div class=\"tile-name\">'' @ name r @ ''</div>''
         @ ''<div class=\"tile-code\">'' @ code_short @ ''</div>''
         @ ''<div class=\"tile-change\">'' @ change_str F r @ ''</div>''
         @ ''<div class=\"tile-price\">'' @ price_str F r @ ''</div>''
         @ ''</div>'')"

text \<open>
  Grouping by sector. A Python dictionary keeps its keys in the order of their first
  insertion, so \<^verbatim>\<open>sectors\<close> is an association list in that order:
  \<^verbatim>\<open>
  sectors = {}
  for r in results:
      sector = r["sector"]
      if sector not in sectors: sectors[sector] = []
      sectors[sector].append(r)
  \<close>
\<close>

fun sectors_add :: "result \<Rightarrow> (string \<times> result list) list \<Rightarrow> (string \<times> result list) list" where
  "sectors_add r [] = [(sector r, [r])]"
| "sectors_add r ((s, rs) # rest) =
     (if s = sector r then (s, rs @ [r]) # rest else (s, rs) # sectors_add r rest)"

definition sectors_of :: "result list \<Rightarrow> (string \<times> result list) list" where
  "sectors_of results = fold sectors_add results []"

text \<open>\<^verbatim>\<open>sectors[s]\<close>, for a key of the dictionary (no other key is ever read).\<close>

definition members :: "(string \<times> result list) list \<Rightarrow> string \<Rightarrow> result list" where
  "members sectors s = (case map_of sectors s of Some rs \<Rightarrow> rs | None \<Rightarrow> [])"

text \<open>
  \<^verbatim>\<open>min(r["code"] for r in sectors[s])\<close>: the codes are strings, and Python compares
  strings by their code points from the left, which is the lexicographic order of
  their UTF-8 bytes. (No sector of the dictionary is empty; the empty case stands for
  the \<^verbatim>\<open>ValueError\<close> that never occurs.)
\<close>

definition min_code :: "result list \<Rightarrow> string" where
  "min_code rs = (case map code rs of [] \<Rightarrow> [] | c # cs \<Rightarrow> fold min cs c)"

text \<open>
  \<^verbatim>\<open>sector_order = sorted(sectors.keys(), key=lambda s: min(r["code"] for r in sectors[s]))\<close>;
  Python's \<^verbatim>\<open>sorted\<close> is stable, as \<open>sort_key\<close> is.
\<close>

definition sector_order :: "(string \<times> result list) list \<Rightarrow> string list" where
  "sector_order sectors = sort_key (\<lambda>s. min_code (members sectors s)) (map fst sectors)"

text \<open>
  \<^verbatim>\<open>
  for sector in sector_order:
      tiles = []
      for r in sorted(sectors[sector], key=lambda x: x["code"]): ... tiles.append(...)
      tiles_by_sector[sector] = tiles
  \<close>
  The page then writes one block per sector of \<^verbatim>\<open>sector_order\<close>, in that order, with
  the sector's tiles in the order of its list.
\<close>

definition sector_rows :: "(string \<times> result list) list \<Rightarrow> string \<Rightarrow> result list" where
  "sector_rows sectors s = sort_key code (members sectors s)"

definition tiles_by_sector :: "py_formats \<Rightarrow> result list \<Rightarrow> (string \<times> string list) list" where
  "tiles_by_sector F results =
     (let sectors = sectors_of results
      in map (\<lambda>s. (s, map (tile F) (sector_rows sectors s))) (sector_order sectors))"

text \<open>
  The embedded dataset:
  \<^verbatim>\<open>
  json_data = json.dumps([{"code": r["code"].replace(".T", ""), "name": r["name"],
      "sector": r["sector"], "change_pct": r["change_pct"], "price": r["price"]}
      for r in results], ensure_ascii=False)
  \<close>
  and \<^verbatim>\<open>const stockData = {json_data};\<close> in the page. An object of \<^verbatim>\<open>stockData\<close> has the
  keys of a result, so it is a \<open>result\<close> again.
\<close>

definition json_data :: "result list \<Rightarrow> result list" where
  "json_data results =
     map (\<lambda>r. \<lparr>code = replace_dot_T (code r), name = name r, sector = sector r,
                price = price r, change_pct = change_pct r\<rparr>) results"

section \<open>The renderer, client side (JavaScript in the generated page)\<close>

text \<open>
  What the browser supplies is a parameter: \<^verbatim>\<open>x.toFixed(2)\<close>,
  \<^verbatim>\<open>x.toLocaleString('ja-JP', {maximumFractionDigits: 0})\<close> and the collation of
  \<^verbatim>\<open>a.localeCompare(b)\<close>.
\<close>

record js_formats =
  toFixed_2 :: "pyfloat \<Rightarrow> string"
  toLocaleString_0 :: "pyfloat \<Rightarrow> string"
  localeCompare :: "string \<Rightarrow> string \<Rightarrow> int"

text \<open>
  \<^verbatim>\<open>
  function makeTile(s) {
      const bg = getColor(s.change_pct);
      const fg = getTextColor(s.change_pct);
      const change = s.change_pct !== null
          ? (s.change_pct >= 0 ? '+' : '') + s.change_pct.toFixed(2) + '%' : 'N/A';
      const price = s.price !== null ? '(yen)' + s.price.toLocaleString(...) : '';
      return '<div class="tile" style="background-color:' + bg + ';color:' + fg + '">'
          + '<div class="tile-name">' + s.name + '</div>'
          + '<div class="tile-code">' + s.code + '</div>'
          + '<div class="tile-change">' + change + '</div>'
          + '<div class="tile-price">' + price + '</div>'
          + '</div>';
  }
  \<close>
\<close>

definition js_change :: "js_formats \<Rightarrow> result \<Rightarrow> string" where
  "js_change J s =
     (case change_pct s of
        Some x \<Rightarrow> (if fge x 0 then ''+'' else '''') @ toFixed_2 J x @ ''%''
      | None \<Rightarrow> ''N/A'')"

definition js_price :: "js_formats \<Rightarrow> result \<Rightarrow> string" where
  "js_price J s = (case price s of Some x \<Rightarrow> yen @ toLocaleString_0 J x | None \<Rightarrow> '''')"

definition makeTile :: "js_formats \<Rightarrow> result \<Rightarrow> string" where
  "makeTile J s =
     (let bg = getColor (change_pct s);
          fg = getTextColor (change_pct s)
      in ''<div class=\"tile\" style=\"background-color:'' @ bg @ '';color:'' @ fg @ ''\">''
         @ ''<div class=\"tile-name\">'' @ name s @ ''</div>''
         @ ''<div class=\"tile-code\">'' @ code s @ ''</div>''
         @ ''<div class=\"tile-change\">'' @ js_change J s @ ''</div>''
         @ ''<div class=\"tile-price\">'' @ js_price J s @ ''</div>''
         @ ''</div>'')"

subsection \<open>Sorting and reading numbers in the page\<close>

text \<open>\<^verbatim>\<open>x || 0\<close> for \<open>x\<close> a number or \<open>null\<close>: \<open>null\<close>, both zeros and NaN are falsy.\<close>

fun or_zero :: "pyfloat option \<Rightarrow> pyfloat" where
  "or_zero None = Fin 0"
| "or_zero (Some NaN) = Fin 0"
| "or_zero (Some NegZero) = Fin 0"
| "or_zero (Some (Fin x)) = (if x = 0 then Fin 0 else Fin x)"
| "or_zero (Some x) = x"

text \<open>
  \<^verbatim>\<open>Array.prototype.sort(cmp)\<close> is stable, and it puts \<open>a\<close> after \<open>b\<close> only when
  \<open>cmp(a, b) > 0\<close>; a result of NaN counts as \<open>0\<close>. For a consistent comparator every
  stable sort gives the same array, which is the one of this insertion sort. (For an
  inconsistent comparator the language leaves the order to the implementation.)
\<close>

fun positive :: "pyfloat \<Rightarrow> bool" where
  "positive (Fin v) = (0 < v)"
| "positive PosInf = True"
| "positive x = False"

fun js_insert :: "('a \<Rightarrow> 'a \<Rightarrow> pyfloat) \<Rightarrow> 'a \<Rightarrow> 'a list \<Rightarrow> 'a list" where
  "js_insert cmp x [] = [x]"
| "js_insert cmp x (y # ys) =
     (if positive (cmp x y) then y # js_insert cmp x ys else x # y # ys)"

definition js_sort :: "('a \<Rightarrow> 'a \<Rightarrow> pyfloat) \<Rightarrow> 'a list \<Rightarrow> 'a list" where
  "js_sort cmp xs = foldr (js_insert cmp) xs []"

text \<open>
  \<^verbatim>\<open>parseInt(s.code)\<close>, with no radix given. It skips the white space at the start of
  the string (the code points of ECMAScript's \<open>WhiteSpace\<close> and \<open>LineTerminator\<close>; a
  string here is the UTF-8 bytes of its text), reads a sign, reads \<open>0x\<close> or \<open>0X\<close> as the
  mark of radix 16, and takes the longest run of digits of the radix. No digit gives
  NaN; otherwise the result is the integer written, rounded to binary64, and \<open>-0\<close> for
  a zero after a minus sign. (Past twenty significant decimal digits the language lets
  an implementation replace digits by \<open>0\<close>; the exact integer is taken here.)
\<close>

definition ascii_space :: "char \<Rightarrow> bool" where
  "ascii_space c = (c \<in> set [CHR 0x09, CHR 0x0A, CHR 0x0B, CHR 0x0C, CHR 0x0D, CHR 0x20])"

text \<open>U+00A0 in two bytes; U+1680, U+2000 to U+200A, U+2028, U+2029, U+202F, U+205F,
  U+3000 and U+FEFF in three.\<close>

definition space2 :: "char \<Rightarrow> char \<Rightarrow> bool" where
  "space2 a b = (a = CHR 0xC2 \<and> b = CHR 0xA0)"

definition space3 :: "char \<Rightarrow> char \<Rightarrow> char \<Rightarrow> bool" where
  "space3 a b c =
     ((a = CHR 0xE1 \<and> b = CHR 0x9A \<and> c = CHR 0x80)
      \<or> (a = CHR 0xE2 \<and> b = CHR 0x80
          \<and> (CHR 0x80 \<le> c \<and> c \<le> CHR 0x8A \<or> c = CHR 0xA8 \<or> c = CHR 0xA9 \<or> c = CHR 0xAF))
      \<or> (a = CHR 0xE2 \<and> b = CHR 0x81 \<and> c = CHR 0x9F)
      \<or> (a = CHR 0xE3 \<and> b = CHR 0x80 \<and> c = CHR 0x80)
      \<or> (a = CHR 0xEF \<and> b = CHR 0xBB \<and> c = CHR 0xBF))"

fun trim_start :: "string \<Rightarrow> string" where
  "trim_start (a # b # c # cs) =
     (if ascii_space a then trim_start (b # c # cs)
      else if space2 a b then trim_start (c # cs)
      else if space3 a b c then trim_start cs
      else a # b # c # cs)"
| "trim_start [a, b] =
     (if ascii_space a then trim_start [b] else if space2 a b then [] else [a, b])"
| "trim_start [a] = (if ascii_space a then [] else [a])"
| "trim_start [] = []"

text \<open>The value of a character as a digit: \<open>0\<close> to \<open>9\<close>, then the letters from ten on.\<close>

definition digit_value :: "char \<Rightarrow> nat option" where
  "digit_value c =
     (if CHR ''0'' \<le> c \<and> c \<le> CHR ''9'' then Some (of_char c - 48)
      else if CHR ''a'' \<le> c \<and> c \<le> CHR ''z'' then Some (of_char c - 87)
      else if CHR ''A'' \<le> c \<and> c \<le> CHR ''Z'' then Some (of_char c - 55)
      else None)"

definition radix_digit :: "nat \<Rightarrow> char \<Rightarrow> bool" where
  "radix_digit R c = (case digit_value c of Some d \<Rightarrow> d < R | None \<Rightarrow> False)"

definition radix_value :: "nat \<Rightarrow> string \<Rightarrow> nat" where
  "radix_value R Z =
     foldl (\<lambda>n c. case digit_value c of Some d \<Rightarrow> R * n + d | None \<Rightarrow> n) 0 Z"

definition parseInt :: "string \<Rightarrow> pyfloat" where
  "parseInt string =
     (let S = trim_start string;
          minus = (take 1 S = ''-'');
          S1 = (if take 1 S = ''+'' \<or> take 1 S = ''-'' then drop 1 S else S);
          hex = (take 2 S1 = ''0x'' \<or> take 2 S1 = ''0X'');
          R = (if hex then 16 else 10);
          S2 = (if hex then drop 2 S1 else S1);
          Z = takeWhile (radix_digit R) S2;
          mathInt = radix_value R Z
      in if Z = [] then NaN
         else if mathInt = 0 then zero_of minus
         else round64 (if minus then - real mathInt else real mathInt))"

text \<open>\<^verbatim>\<open>Math.min(...xs)\<close>: NaN if any argument is NaN, \<open>Infinity\<close> for no argument, and
  \<open>-0\<close> is below \<open>+0\<close>.\<close>

fun js_min :: "pyfloat \<Rightarrow> pyfloat \<Rightarrow> pyfloat" where
  "js_min NaN b = NaN"
| "js_min a NaN = NaN"
| "js_min NegInf b = NegInf"
| "js_min a NegInf = NegInf"
| "js_min PosInf b = b"
| "js_min a PosInf = a"
| "js_min NegZero NegZero = NegZero"
| "js_min NegZero (Fin b) = (if b < 0 then Fin b else NegZero)"
| "js_min (Fin a) NegZero = (if a < 0 then Fin a else NegZero)"
| "js_min (Fin a) (Fin b) = Fin (min a b)"

definition Math_min :: "pyfloat list \<Rightarrow> pyfloat" where
  "Math_min xs = fold js_min xs PosInf"

subsection \<open>View modes\<close>

text \<open>
  \<^verbatim>\<open>
  const groups = {};
  stockData.forEach(s => {
      if (!groups[s.sector]) groups[s.sector] = [];
      groups[s.sector].push(s);
  });
  \<close>
  \<^verbatim>\<open>groups\<close> is a plain object, so \<^verbatim>\<open>groups[k]\<close> also finds what the object inherits from
  \<^verbatim>\<open>Object.prototype\<close>. Each of those members is truthy and none has a \<^verbatim>\<open>push\<close>: for a
  sector of such a name no list is made and the call of \<^verbatim>\<open>push\<close> throws a
  \<^verbatim>\<open>TypeError\<close>, which ends \<^verbatim>\<open>sortBy\<close>.
\<close>

datatype js_error = TypeError

definition object_prototype_names :: "string list" where
  "object_prototype_names =
     [''constructor'', ''hasOwnProperty'', ''isPrototypeOf'', ''propertyIsEnumerable'',
      ''toLocaleString'', ''toString'', ''valueOf'', ''__proto__'', ''__defineGetter__'',
      ''__defineSetter__'', ''__lookupGetter__'', ''__lookupSetter__'']"

fun groups_add ::
  "result \<Rightarrow> (string \<times> result list) list \<Rightarrow> js_error + (string \<times> result list) list" where
  "groups_add s [] =
     (if sector s \<in> set object_prototype_names then Inl TypeError else Inr [(sector s, [s])])"
| "groups_add s ((k, ss) # rest) =
     (if k = sector s then Inr ((k, ss @ [s]) # rest)
      else (case groups_add s rest of Inl e \<Rightarrow> Inl e | Inr rest' \<Rightarrow> Inr ((k, ss) # rest')))"

fun groups_from ::
  "result list \<Rightarrow> (string \<times> result list) list \<Rightarrow> js_error + (string \<times> result list) list" where
  "groups_from [] groups = Inr groups"
| "groups_from (s # stockData) groups =
     (case groups_add s groups of Inl e \<Rightarrow> Inl e | Inr groups' \<Rightarrow> groups_from stockData groups')"

definition groups_of :: "result list \<Rightarrow> js_error + (string \<times> result list) list" where
  "groups_of stockData = groups_from stockData []"

text \<open>
  \<^verbatim>\<open>Object.keys(groups)\<close> lists the keys that are array indices first (\<open>0\<close>, or decimal
  digits with no leading \<open>0\<close>, below \<open>2^32 - 1\<close>), by their number, and then the other
  keys in the order of their insertion.
\<close>

definition decimal_value :: "string \<Rightarrow> nat" where
  "decimal_value k = radix_value 10 k"

definition is_array_index :: "string \<Rightarrow> bool" where
  "is_array_index k =
     (k \<noteq> [] \<and> list_all (radix_digit 10) k \<and> (k = ''0'' \<or> take 1 k \<noteq> ''0'')
      \<and> decimal_value k < 4294967295)"

definition Object_keys :: "(string \<times> result list) list \<Rightarrow> string list" where
  "Object_keys groups =
     sort_key decimal_value (filter is_array_index (map fst groups))
     @ filter (\<lambda>k. \<not> is_array_index k) (map fst groups)"

text \<open>
  \<^verbatim>\<open>
  const sectorOrder = Object.keys(groups).sort((a, b) => {
      const minA = Math.min(...groups[a].map(s => parseInt(s.code)));
      const minB = Math.min(...groups[b].map(s => parseInt(s.code)));
      return minA - minB;
  });
  \<close>
\<close>

definition min_parsed :: "(string \<times> result list) list \<Rightarrow> string \<Rightarrow> pyfloat" where
  "min_parsed groups a = Math_min (map (\<lambda>s. parseInt (code s)) (members groups a))"

definition sectorOrder :: "(string \<times> result list) list \<Rightarrow> string list" where
  "sectorOrder groups =
     js_sort (\<lambda>a b. fsub (min_parsed groups a) (min_parsed groups b)) (Object_keys groups)"

text \<open>\<^verbatim>\<open>const items = groups[sector].sort((a, b) => a.code.localeCompare(b.code));\<close>\<close>

definition by_code :: "js_formats \<Rightarrow> result \<Rightarrow> result \<Rightarrow> pyfloat" where
  "by_code J a b = Fin (real_of_int (localeCompare J (code a) (code b)))"

definition sector_items :: "js_formats \<Rightarrow> (string \<times> result list) list \<Rightarrow> string \<Rightarrow> result list" where
  "sector_items J groups a = js_sort (by_code J) (members groups a)"

text \<open>
  The flat modes of \<^verbatim>\<open>sortBy(mode)\<close>:
  \<^verbatim>\<open>
  if (mode === 'change_desc') {
      sorted = [...stockData].sort((a, b) => (b.change_pct || 0) - (a.change_pct || 0));
  } else if (mode === 'change_asc') {
      sorted = [...stockData].sort((a, b) => (a.change_pct || 0) - (b.change_pct || 0));
  } else {
      sorted = [...stockData].sort((a, b) => a.code.localeCompare(b.code));
  }
  \<close>
\<close>

definition change_desc :: "result \<Rightarrow> result \<Rightarrow> pyfloat" where
  "change_desc a b = fsub (or_zero (change_pct b)) (or_zero (change_pct a))"

definition change_asc :: "result \<Rightarrow> result \<Rightarrow> pyfloat" where
  "change_asc a b = fsub (or_zero (change_pct a)) (or_zero (change_pct b))"

definition sorted_flat :: "js_formats \<Rightarrow> string \<Rightarrow> result list \<Rightarrow> result list" where
  "sorted_flat J mode stockData =
     (if mode = ''change_desc'' then js_sort change_desc stockData
      else if mode = ''change_asc'' then js_sort change_asc stockData
      else js_sort (by_code J) stockData)"

text \<open>
  \<^verbatim>\<open>sortBy(mode)\<close>: the text it assigns to \<^verbatim>\<open>content.innerHTML\<close>, or the error that
  ends it. (It also moves the \<^verbatim>\<open>active\<close> class to the button that was pressed.)
  \<^verbatim>\<open>
  if (mode === 'sector') {
      ...
      let html = '';
      sectorOrder.forEach(sector => {
          const items = ...;
          html += '<div class="sector-group"><h2 class="sector-title">' + sector
                + '</h2><div class="grid">';
          items.forEach(s => { html += makeTile(s); });
          html += '</div></div>';
      });
      content.innerHTML = html;
      return;
  }
  ...
  let html = '<div class="flat-grid">';
  sorted.forEach(s => { html += makeTile(s); });
  html += '</div>';
  content.innerHTML = html;
  \<close>
\<close>

definition sortBy :: "js_formats \<Rightarrow> string \<Rightarrow> result list \<Rightarrow> js_error + string" where
  "sortBy J mode stockData =
     (if mode = ''sector'' then
        (case groups_of stockData of
           Inl e \<Rightarrow> Inl e
         | Inr groups \<Rightarrow>
             Inr (concat (map (\<lambda>sector.
               ''<div class=\"sector-group\"><h2 class=\"sector-title\">'' @ sector
               @ ''</h2><div class=\"grid\">''
               @ concat (map (makeTile J) (sector_items J groups sector))
               @ ''</div></div>'') (sectorOrder groups))))
      else Inr (''<div class=\"flat-grid\">''
           @ concat (map (makeTile J) (sorted_flat J mode stockData))
           @ ''</div>''))"

text \<open>A dataset in which every absent \<^verbatim>\<open>change_pct\<close> is replaced by the number \<open>0\<close>.\<close>

definition absent_as_zero :: "result \<Rightarrow> result" where
  "absent_as_zero s = (case change_pct s of None \<Rightarrow> s\<lparr>change_pct := Some (Fin 0)\<rparr> | Some x \<Rightarrow> s)"

section \<open>Sample inputs\<close>

text \<open>A roster of three stocks and a batch in which the second ticker is missing and
  the third has a single close.\<close>

definition demo_roster :: "stock list" where
  "demo_roster =
     [\<lparr>code = ''1332.T'', name = ''Nissui'', sector = ''Fishery''\<rparr>,
      \<lparr>code = ''7203.T'', name = ''Toyota'', sector = ''Automobiles''\<rparr>,
      \<lparr>code = ''9984.T'', name = ''SoftBank'', sector = ''Telecom''\<rparr>]"

definition demo_batch :: batch where
  "demo_batch =
     \<lparr>whole_close = Inl KeyError,
      ticker_close = (\<lambda>c.
        if c = ''1332.T'' then Inr [Fin 100, Fin 100, NaN, Fin 105]
        else if c = ''9984.T'' then Inr [NaN, Fin 2500, NaN]
        else Inl KeyError)\<rparr>"

text \<open>A roster of one stock with the closes \<open>[100, 100, 105]\<close>.\<close>

definition one_roster :: "stock list" where
  "one_roster = [\<lparr>code = ''7203.T'', name = ''Toyota'', sector = ''Automobiles''\<rparr>]"

definition one_batch :: batch where
  "one_batch =
     \<lparr>whole_close = Inr [Fin 100, Fin 100, Fin 105], ticker_close = (\<lambda>c. Inl KeyError)\<rparr>"

text \<open>The same stock with a second one that the batch does not hold.\<close>

definition pair_roster :: "stock list" where
  "pair_roster =
     [\<lparr>code = ''7203.T'', name = ''Toyota'', sector = ''Automobiles''\<rparr>,
      \<lparr>code = ''0000.T'', name = ''Nothing'', sector = ''None''\<rparr>]"

definition pair_batch :: batch where
  "pair_batch =
     \<lparr>whole_close = Inl KeyError,
      ticker_close = (\<lambda>c.
        if c = ''7203.T'' then Inr [Fin 100, Fin 100, Fin 105] else Inl KeyError)\<rparr>"

text \<open>Two results whose codes differ in length, each alone in its sector.\<close>

definition mixed_results :: "result list" where
  "mixed_results =
     [\<lparr>code = ''999.T'', name = ''First'', sector = ''A'', price = None, change_pct = None\<rparr>,
      \<lparr>code = ''1000.T'', name = ''Second'', sector = ''B'', price = None, change_pct = None\<rparr>]"

text \<open>Stand-ins for the number formats (no number is printed in the samples that use
  them) and the collation of strings by code points.\<close>

definition plain_py :: py_formats where
  "plain_py = \<lparr>signed_2f = (\<lambda>x. ''?''), grouped_0f = (\<lambda>x. ''?''), str_float = (\<lambda>x. ''?'')\<rparr>"

definition plain_js :: js_formats where
  "plain_js =
     \<lparr>toFixed_2 = (\<lambda>x. ''?''), toLocaleString_0 = (\<lambda>x. ''?''),
      localeCompare = (\<lambda>a b. if a < b then - 1 else if a = b then 0 else 1)\<rparr>"

section \<open>Classifier: results\<close>

lemmas colour_defs = neutral_gray_def dark_green_def green_def pale_green_def pale_red_def
  red_def dark_red_def white_def dark_gray_def

lemma get_color_Fin:
  "get_color (Some (Fin x)) =
     (if 3 \<le> x then dark_green else if 1 \<le> x then green else if 0 \<le> x then pale_green
      else if - 1 \<le> x then pale_red else if - 3 \<le> x then red else dark_red)"
  by (simp add: get_color_def colour_defs)

lemma get_text_color_Fin:
  "get_text_color (Some (Fin x)) =
     (if 3 \<le> x \<or> x \<le> - 3 then white else if 1 \<le> x \<or> x \<le> - 1 then white else dark_gray)"
  by (simp add: get_text_color_def colour_defs)

lemma getColor_eq: "getColor pct = get_color pct"
  by (cases pct) (simp_all add: get_color_def)

lemma getTextColor_eq: "getTextColor pct = get_text_color pct"
  by (cases pct) (simp_all add: get_text_color_def)

lemma json_data_change_pct: "map change_pct (json_data results) = map change_pct results"
  by (simp add: json_data_def comp_def)

text \<open>
  C1. Parity of the two classifiers: for every value a record of the embedded dataset
  can hold (\<open>null\<close>, a finite number, an infinity, NaN), the page's \<^verbatim>\<open>getColor\<close> and
  \<^verbatim>\<open>getTextColor\<close> return the pair that Python's \<^verbatim>\<open>get_color\<close> and
  \<^verbatim>\<open>get_text_color\<close> return. So the pairs the page computes for the records of the
  embedded dataset are, record by record, the pairs of the server-rendered tiles.
\<close>

theorem client_server_parity:
  "(getColor pct, getTextColor pct) = (get_color pct, get_text_color pct)
   \<and> map (\<lambda>s. (getColor (change_pct s), getTextColor (change_pct s))) (json_data results)
       = map (\<lambda>r. (get_color (change_pct r), get_text_color (change_pct r))) results"
proof
  show "(getColor pct, getTextColor pct) = (get_color pct, get_text_color pct)"
    by (simp add: getColor_eq getTextColor_eq)
next
  have "map (\<lambda>s. (getColor (change_pct s), getTextColor (change_pct s))) (json_data results)
      = map (\<lambda>c. (get_color c, get_text_color c)) (map change_pct (json_data results))"
    by (simp add: comp_def getColor_eq getTextColor_eq)
  also have "\<dots> = map (\<lambda>c. (get_color c, get_text_color c)) (map change_pct results)"
    by (simp only: json_data_change_pct)
  also have "\<dots> = map (\<lambda>r. (get_color (change_pct r), get_text_color (change_pct r))) results"
    by (simp add: comp_def)
  finally show "map (\<lambda>s. (getColor (change_pct s), getTextColor (change_pct s))) (json_data results)
       = map (\<lambda>r. (get_color (change_pct r), get_text_color (change_pct r))) results" .
qed

text \<open>
  C2. The table of the specification gives the bucket \<open>[-1, 0)\<close> dark-gray text, so at
  \<open>changePercent = -1\<close> it asks for pale red with dark gray. The code returns pale red
  with white there: \<^verbatim>\<open>get_text_color\<close> tests \<^verbatim>\<open>change_pct <= -1\<close>, which holds at
  \<open>-1\<close>, while \<^verbatim>\<open>get_color\<close> puts \<open>-1\<close> in the pale-red bucket. Everywhere else the
  code and the table agree.
\<close>

theorem classify_at_minus_one:
  "classify (Some (Fin (- 1))) = (pale_red, white)
   \<and> spec_table (Some (- 1)) = (pale_red, dark_gray)
   \<and> classify (Some (Fin (- 1))) \<noteq> spec_table (Some (- 1))"
  by (simp add: classify_def get_color_def get_text_color_def spec_table_def colour_defs)

lemma classify_table_elsewhere:
  "x \<noteq> - 1 \<Longrightarrow> classify (Some (Fin x)) = spec_table (Some x)"
  by (simp add: classify_def get_color_Fin get_text_color_Fin spec_table_def)

lemma classify_table_absent: "classify None = spec_table None"
  by (simp add: classify_def get_color_def get_text_color_def spec_table_def colour_defs)


text \<open>
  The background colour alone, which \<^verbatim>\<open>get_color\<close> decides, is total, monotone and
  exact at its boundaries: every value gets one of the seven backgrounds, which are
  pairwise different, and one of the two text colours; a real number gets the
  background of the one interval that holds it; the rank of the background does not
  decrease as the number grows; and \<open>3\<close>, \<open>1\<close>, \<open>0\<close>, \<open>-1\<close>, \<open>-3\<close> fall in the higher bucket while
  a number just below each falls in the lower one.
\<close>

lemma get_color_total_monotone_exact:
  "(\<forall>cp. get_color cp \<in> {neutral_gray, dark_green, green, pale_green, pale_red, red, dark_red})
   \<and> (\<forall>cp. get_text_color cp \<in> {white, dark_gray})
   \<and> distinct [neutral_gray, dark_green, green, pale_green, pale_red, red, dark_red]
   \<and> get_color None = neutral_gray
   \<and> (\<forall>x. (get_color (Some (Fin x)) = dark_green) = (3 \<le> x)
         \<and> (get_color (Some (Fin x)) = green) = (1 \<le> x \<and> x < 3)
         \<and> (get_color (Some (Fin x)) = pale_green) = (0 \<le> x \<and> x < 1)
         \<and> (get_color (Some (Fin x)) = pale_red) = (- 1 \<le> x \<and> x < 0)
         \<and> (get_color (Some (Fin x)) = red) = (- 3 \<le> x \<and> x < - 1)
         \<and> (get_color (Some (Fin x)) = dark_red) = (x < - 3))
   \<and> (\<forall>x y. x \<le> y \<longrightarrow>
         positivity (get_color (Some (Fin x))) \<le> positivity (get_color (Some (Fin y))))
   \<and> get_color (Some (Fin 3)) = dark_green \<and> get_color (Some (Fin 2.999999)) = green
   \<and> get_color (Some (Fin 1)) = green \<and> get_color (Some (Fin 0.999999)) = pale_green
   \<and> get_color (Some (Fin 0)) = pale_green \<and> get_color (Some (Fin (- 0.000001))) = pale_red
   \<and> get_color (Some (Fin (- 1))) = pale_red \<and> get_color (Some (Fin (- 1.000001))) = red
   \<and> get_color (Some (Fin (- 3))) = red \<and> get_color (Some (Fin (- 3.000001))) = dark_red"
proof -
  have total: "get_color cp \<in> {neutral_gray, dark_green, green, pale_green, pale_red, red, dark_red}" for cp
    by (cases cp) (simp_all add: get_color_def colour_defs)
  have fg: "get_text_color cp \<in> {white, dark_gray}" for cp
    by (cases cp) (simp_all add: get_text_color_def colour_defs)
  have dist: "distinct [neutral_gray, dark_green, green, pale_green, pale_red, red, dark_red]"
    by (simp add: colour_defs)
  have none: "get_color None = neutral_gray"
    by (simp add: get_color_def colour_defs)
  have rank: "positivity (get_color (Some (Fin x))) =
      (if 3 \<le> x then 5 else if 1 \<le> x then 4 else if 0 \<le> x then 3
       else if - 1 \<le> x then 2 else if - 3 \<le> x then 1 else 0)" for x
    by (simp add: get_color_def positivity_def colour_defs)
  have mono: "positivity (get_color (Some (Fin x))) \<le> positivity (get_color (Some (Fin y)))"
    if "x \<le> y" for x y
    using that unfolding rank by (simp split: if_splits)
  have exact: "(get_color (Some (Fin x)) = dark_green) = (3 \<le> x)
         \<and> (get_color (Some (Fin x)) = green) = (1 \<le> x \<and> x < 3)
         \<and> (get_color (Some (Fin x)) = pale_green) = (0 \<le> x \<and> x < 1)
         \<and> (get_color (Some (Fin x)) = pale_red) = (- 1 \<le> x \<and> x < 0)
         \<and> (get_color (Some (Fin x)) = red) = (- 3 \<le> x \<and> x < - 1)
         \<and> (get_color (Some (Fin x)) = dark_red) = (x < - 3)" for x
    by (simp add: get_color_def colour_defs)
  have pts: "get_color (Some (Fin 3)) = dark_green \<and> get_color (Some (Fin 2.999999)) = green
   \<and> get_color (Some (Fin 1)) = green \<and> get_color (Some (Fin 0.999999)) = pale_green
   \<and> get_color (Some (Fin 0)) = pale_green \<and> get_color (Some (Fin (- 0.000001))) = pale_red
   \<and> get_color (Some (Fin (- 1))) = pale_red \<and> get_color (Some (Fin (- 1.000001))) = red
   \<and> get_color (Some (Fin (- 3))) = red \<and> get_color (Some (Fin (- 3.000001))) = dark_red"
    by (simp add: get_color_def colour_defs)
  from total fg dist none exact mono pts show ?thesis by blast
qed


text \<open>
  C8. The classifier as a function to the pair of colours is total, but its values
  are not the seven outcomes of the table: at \<open>-1\<close>, inside the bucket \<open>[-1, 0)\<close>,
  \<^verbatim>\<open>classify\<close> returns pale red with white text, which is no row of the table, while the
  rest of that bucket (\<open>-1/2\<close>, say) gets pale red with dark gray. The boundary at \<open>-1\<close>
  is therefore not exact for the pair: \<open>-1\<close> gets neither the outcome of its own bucket
  nor that of the bucket below (red with white). The cause is the test
  \<^verbatim>\<open>change_pct <= -1\<close> of \<^verbatim>\<open>get_text_color\<close>, as for C2.
\<close>

theorem classify_eighth_outcome:
  "classify (Some (Fin (- 1))) = (pale_red, white)
   \<and> classify (Some (Fin (- 1))) \<notin>
        {(neutral_gray, white), (dark_green, white), (green, white), (pale_green, dark_gray),
         (pale_red, dark_gray), (red, white), (dark_red, white)}
   \<and> classify (Some (Fin (- 1 / 2))) = (pale_red, dark_gray)
   \<and> classify (Some (Fin (- 1.000001))) = (red, white)"
  by (simp add: classify_def get_color_def get_text_color_def colour_defs)

lemma classify_in_table_elsewhere:
  "x \<noteq> - 1 \<Longrightarrow>
   classify (Some (Fin x)) \<in>
     {(neutral_gray, white), (dark_green, white), (green, white), (pale_green, dark_gray),
      (pale_red, dark_gray), (red, white), (dark_red, white)}"
  by (simp add: classify_def get_color_Fin get_text_color_Fin)

section \<open>Float arithmetic: results\<close>

lemma pow2_pos: "0 < pow2 e"
  by (simp add: pow2_def)

lemma pow2_nat: "0 \<le> e \<Longrightarrow> pow2 e = 2 ^ nat e"
  by (simp add: pow2_def)

lemma pow2_neg: "e \<le> 0 \<Longrightarrow> pow2 e = 1 / 2 ^ nat (- e)"
  by (simp add: pow2_def)

lemma pow2_mono: "a \<le> b \<Longrightarrow> pow2 a \<le> pow2 b"
proof -
  assume ab: "a \<le> b"
  have "pow2 e = 2 powi e" for e
    by (simp add: pow2_def power_int_def field_simps)
  then show ?thesis using ab by (simp add: power_int_increasing)
qed

lemma expo_eqI:
  assumes lo: "pow2 e \<le> \<bar>x\<bar>" and hi: "\<bar>x\<bar> < pow2 (e + 1)"
  shows "expo x = e"
proof (cases "1 \<le> \<bar>x\<bar>")
  case True
  have e0: "0 \<le> e"
  proof (rule ccontr)
    assume "\<not> 0 \<le> e"
    then have "e + 1 \<le> 0" by simp
    then have "pow2 (e + 1) \<le> pow2 0" by (rule pow2_mono)
    with hi True show False by (simp add: pow2_def)
  qed
  let ?n = "\<lfloor>\<bar>x\<bar>\<rfloor>"
  have n1: "1 \<le> ?n" using True by simp
  have "real_of_int (2 ^ nat e) \<le> \<bar>x\<bar>" using lo e0 by (simp add: pow2_nat)
  then have a: "2 ^ nat e \<le> ?n" by (simp only: le_floor_iff)
  have "\<bar>x\<bar> < real_of_int (2 ^ nat (e + 1))" using hi e0 by (simp add: pow2_nat)
  then have b: "?n < 2 ^ nat (e + 1)" by (simp only: floor_less_iff)
  have "bitlen ?n \<le> e + 1"
    using b e0 by (simp add: bitlen_le_iff_power)
  moreover have "e + 1 \<le> bitlen ?n"
  proof -
    have "nat (e + 1) - 1 = nat e" using e0 by simp
    with a show ?thesis by (simp only: bitlen_ge_iff_power) simp
  qed
  ultimately show ?thesis using True by (simp add: expo_def)
next
  case False
  then have x1: "\<bar>x\<bar> < 1" by simp
  have xpos: "0 < \<bar>x\<bar>" using lo pow2_pos [of e] by linarith
  have e0: "e < 0"
  proof (rule ccontr)
    assume "\<not> e < 0"
    then have "pow2 0 \<le> pow2 e" by (intro pow2_mono) simp
    with lo x1 show False by (simp add: pow2_def)
  qed
  let ?y = "1 / \<bar>x\<bar>"
  let ?k = "nat (- e)"
  have k: "0 < ?k" using e0 by simp
  have lo': "1 / 2 ^ ?k \<le> \<bar>x\<bar>" using lo e0 by (simp add: pow2_neg)
  have "?y \<le> 2 ^ ?k"
    using lo' xpos by (simp add: field_simps)
  then have "?y \<le> real_of_int (2 ^ ?k)" by simp
  then have c: "\<lceil>?y\<rceil> \<le> 2 ^ ?k" by (simp only: ceiling_le_iff)
  have hi': "\<bar>x\<bar> < 1 / 2 ^ (?k - 1)"
  proof -
    have "e + 1 \<le> 0" using e0 by simp
    then have "pow2 (e + 1) = 1 / 2 ^ nat (- (e + 1))" by (rule pow2_neg)
    moreover have "nat (- (e + 1)) = ?k - 1" using e0 by simp
    ultimately show ?thesis using hi by simp
  qed
  have "2 ^ (?k - 1) < ?y"
    using hi' xpos by (simp add: field_simps)
  then have "real_of_int (2 ^ (?k - 1)) < ?y" by simp
  then have d: "2 ^ (?k - 1) < \<lceil>?y\<rceil>" by (simp only: less_ceiling_iff)
  have "bitlen (\<lceil>?y\<rceil> - 1) \<le> - e"
    using c e0 by (simp add: bitlen_le_iff_power)
  moreover have "- e \<le> bitlen (\<lceil>?y\<rceil> - 1)"
  proof -
    have "2 ^ (?k - 1) \<le> \<lceil>?y\<rceil> - 1" using d by simp
    then show ?thesis by (simp only: bitlen_ge_iff_power) simp
  qed
  ultimately show ?thesis using False by (simp add: expo_def)
qed

lemma round64_eval:
  assumes "pow2 e \<le> \<bar>x\<bar>" and "\<bar>x\<bar> < pow2 (e + 1)"
  shows "round64 x =
     (let e' = max e (- 1022);
          q = pow2 (e' - 52);
          n = round_half_even (\<bar>x\<bar> / q);
          m = of_int n * q
      in if pow2 1024 \<le> m then (if 0 < x then PosInf else NegInf)
         else if n = 0 then (if 0 < x then Fin 0 else NegZero)
         else Fin (if 0 < x then m else - m))"
  unfolding round64_def expo_eqI [OF assms] ..

lemma round_half_even_nearest:
  assumes "of_int k - 1 / 2 < y" and "y < of_int k + 1 / 2"
  shows "round_half_even y = k"
proof -
  have "\<lfloor>y\<rfloor> = k \<or> \<lfloor>y\<rfloor> = k - 1"
    using assms by linarith
  then show ?thesis
  proof
    assume f: "\<lfloor>y\<rfloor> = k"
    then have "y - of_int \<lfloor>y\<rfloor> < 1 / 2" using assms by simp
    then show ?thesis by (simp add: round_half_even_def Let_def f)
  next
    assume f: "\<lfloor>y\<rfloor> = k - 1"
    then have "1 / 2 < y - of_int \<lfloor>y\<rfloor>" using assms by simp
    then show ?thesis by (simp add: round_half_even_def Let_def f)
  qed
qed

lemma round64_nearest:
  assumes "pow2 e \<le> \<bar>x\<bar>" and "\<bar>x\<bar> < pow2 (e + 1)" and "- 1022 \<le> e"
    and "of_int n - 1 / 2 < \<bar>x\<bar> / pow2 (e - 52)" and "\<bar>x\<bar> / pow2 (e - 52) < of_int n + 1 / 2"
  shows "round64 x =
     (if pow2 1024 \<le> of_int n * pow2 (e - 52) then (if 0 < x then PosInf else NegInf)
      else if n = 0 then (if 0 < x then Fin 0 else NegZero)
      else Fin (if 0 < x then of_int n * pow2 (e - 52) else - (of_int n * pow2 (e - 52))))"
proof -
  have m: "max e (- 1022) = e" using assms(3) by simp
  have r: "round_half_even (\<bar>x\<bar> / pow2 (e - 52)) = n"
    using assms(4,5) by (rule round_half_even_nearest)
  show ?thesis
    unfolding round64_eval [OF assms(1,2)] Let_def m r ..
qed

lemma fsub_Fin: "a - b \<noteq> 0 \<Longrightarrow> fsub (Fin a) (Fin b) = round64 (a - b)"
  by (simp add: fsub_def)

lemma fdiv_Fin: "a \<noteq> 0 \<Longrightarrow> b \<noteq> 0 \<Longrightarrow> fdiv (Fin a) (Fin b) = round64 (a / b)"
  by (simp add: fdiv_def)

lemma fmul_Fin: "a \<noteq> 0 \<Longrightarrow> b \<noteq> 0 \<Longrightarrow> fmul (Fin a) (Fin b) = round64 (a * b)"
  by (simp add: fmul_def)

lemmas round64_simps = pow2_def round_half_even_def Let_def

text \<open>The closes \<open>100\<close> and \<open>105\<close>: the difference \<open>5\<close> is exact, \<open>5 / 100\<close> rounds to the
  float \<open>0.05\<close>, and that times \<open>100\<close> rounds to \<open>5\<close>.\<close>

lemma pct_change_100_105: "pct_change (Fin 100) (Fin 105) = Fin 5"
proof -
  have a: "fsub (Fin 105) (Fin 100) = Fin 5"
    by (simp add: fsub_Fin) (subst round64_eval [of 2], simp_all add: round64_simps)
  have b: "fdiv (Fin 5) (Fin 100) = Fin (3602879701896397 / 2 ^ 56)"
    by (simp add: fdiv_Fin) (subst round64_eval [of "- 5"], simp_all add: round64_simps)
  have c: "fmul (Fin (3602879701896397 / 2 ^ 56)) (Fin 100) = Fin 5"
    by (simp add: fmul_Fin) (subst round64_eval [of 2], simp_all add: round64_simps)
  show ?thesis by (simp only: pct_change_def a b c)
qed

text \<open>The closes \<open>3\<close> and \<open>4\<close>: the change is the float that Python prints as
  \<open>33.33333333333333\<close>, not the real number \<open>100 / 3\<close>.\<close>

lemma pct_change_3_4: "pct_change (Fin 3) (Fin 4) = Fin (2345624805922133 / 2 ^ 46)"
proof -
  have a: "fsub (Fin 4) (Fin 3) = Fin 1"
    by (simp add: fsub_Fin) (subst round64_eval [of 0], simp_all add: round64_simps)
  have b: "fdiv (Fin 1) (Fin 3) = Fin (6004799503160661 / 2 ^ 54)"
    by (simp add: fdiv_Fin) (subst round64_eval [of "- 2"], simp_all add: round64_simps)
  have c: "fmul (Fin (6004799503160661 / 2 ^ 54)) (Fin 100) = Fin (2345624805922133 / 2 ^ 46)"
    by (simp add: fmul_Fin) (subst round64_eval [of 5], simp_all add: round64_simps)
  show ?thesis by (simp only: pct_change_def a b c)
qed

text \<open>The floats nearest to \<open>18.7\<close> and \<open>19.261\<close>: the change rounds to exactly \<open>3\<close>, the
  dark-green bucket, though the exact quotient is below \<open>3\<close>.\<close>

lemma pct_change_rounds_up_to_3:
  "pct_change (Fin (5263582064489267 / 2 ^ 48)) (Fin (5421489526423945 / 2 ^ 48)) = Fin 3
   \<and> get_color (Some (Fin 3)) = dark_green
   \<and> ((5421489526423945 / 2 ^ 48 - 5263582064489267 / 2 ^ 48) / (5263582064489267 / 2 ^ 48)
        * 100 :: real) < 3"
proof -
  have a: "fsub (Fin (5421489526423945 / 2 ^ 48)) (Fin (5263582064489267 / 2 ^ 48))
      = Fin (78953730967339 / 2 ^ 47)"
    by (simp add: fsub_Fin) (subst round64_eval [of "- 1"], simp_all add: round64_simps)
  have b: "fdiv (Fin (78953730967339 / 2 ^ 47)) (Fin (5263582064489267 / 2 ^ 48))
      = Fin (1080863910568919 / 2 ^ 55)"
    by (simp add: fdiv_Fin) (subst round64_eval [of "- 6"], simp_all add: round64_simps)
  have c: "fmul (Fin (1080863910568919 / 2 ^ 55)) (Fin 100) = Fin 3"
    by (simp add: fmul_Fin) (subst round64_eval [of 1], simp_all add: round64_simps)
  have d: "get_color (Some (Fin 3)) = dark_green"
    by (simp add: get_color_def colour_defs)
  have e: "((5421489526423945 / 2 ^ 48 - 5263582064489267 / 2 ^ 48) / (5263582064489267 / 2 ^ 48)
        * 100 :: real) < 3"
    by simp
  show ?thesis by (simp only: pct_change_def a b c d e simp_thms)
qed

text \<open>A previous close of zero: the division gives an infinity of the sign of the
  numerator and of the zero, or NaN for \<open>0 / 0\<close>; nothing is raised.\<close>

lemma pct_change_zero_close:
  "pct_change (Fin 0) (Fin 5) = PosInf" "pct_change NegZero (Fin 5) = NegInf"
  "pct_change (Fin 0) (Fin 0) = NaN" "pct_change NegZero NegZero = NaN"
proof -
  have a: "round64 5 = Fin 5"
    by (subst round64_eval [of 2]) (simp_all add: round64_simps)
  show "pct_change (Fin 0) (Fin 5) = PosInf" "pct_change NegZero (Fin 5) = NegInf"
    "pct_change (Fin 0) (Fin 0) = NaN" "pct_change NegZero NegZero = NaN"
    by (simp_all add: pct_change_def fsub_def fdiv_def fmul_def a inf_of_def zero_of_def)
qed

text \<open>An overflow: for the closes \<open>2^-600\<close> and \<open>2^600\<close> the quotient is beyond the largest
  float, and the change is the infinity.\<close>

lemma pct_change_overflow: "pct_change (Fin (1 / 2 ^ 600)) (Fin (2 ^ 600)) = PosInf"
proof -
  have a: "fsub (Fin (2 ^ 600)) (Fin (1 / 2 ^ 600)) = Fin (2 ^ 600)"
    by (simp add: fsub_Fin) (subst round64_nearest [of 599 _ "2 ^ 53"], simp_all add: pow2_def)
  have b: "fdiv (Fin (2 ^ 600)) (Fin (1 / 2 ^ 600)) = PosInf"
    by (simp add: fdiv_Fin) (subst round64_nearest [of 1200 _ "2 ^ 52"], simp_all add: pow2_def)
  have c: "fmul PosInf (Fin 100) = PosInf"
    by (simp add: fmul_def inf_of_def)
  show ?thesis by (simp only: pct_change_def a b c)
qed

section \<open>Price resolver: results\<close>

lemma fold_append_map: "fold (\<lambda>x acc. acc @ [f x]) xs acc = acc @ map f xs"
  by (induction xs arbitrary: acc) simp_all

lemma fetch_price_data_map:
  "fetch_price_data data stocks = map (resolve (length stocks) data) stocks"
  by (simp add: fetch_price_data_def fold_append_map)

lemma resolve_stock_fields:
  "code (resolve n data s) = code s \<and> name (resolve n data s) = name s
   \<and> sector (resolve n data s) = sector s"
  by (simp add: resolve_def try_body_def with_price_def Let_def split: sum.splits)

lemma truncate_resolve: "stock.truncate (resolve n data s) = s"
  by (simp add: resolve_def try_body_def with_price_def Let_def stock.truncate_def split: sum.splits)

lemma resolve_bad: "bad_symbol n data (code s) \<Longrightarrow> resolve n data s = with_price s None None"
  by (auto simp: bad_symbol_def resolve_def try_body_def Let_def split: sum.splits)

lemma resolve_good:
  "ticker_data n data (code s) = Inr col \<Longrightarrow> 2 \<le> length (dropna col) \<Longrightarrow>
   resolve n data s =
     with_price s (Some (dropna col ! (length (dropna col) - 1)))
       (Some (pct_change (dropna col ! (length (dropna col) - 2)) (dropna col ! (length (dropna col) - 1))))"
  by (simp add: resolve_def try_body_def Let_def)

lemma resolve_both: "(price (resolve n data s) = None) = (change_pct (resolve n data s) = None)"
  by (simp add: resolve_def try_body_def with_price_def Let_def split: sum.splits)

lemma resolve_same_column:
  "ticker_data n data' (code s) = ticker_data m data (code s) \<Longrightarrow>
   resolve n data' s = resolve m data s"
  by (simp add: resolve_def try_body_def)

lemma ticker_data_upd:
  "c' \<noteq> c \<Longrightarrow>
   ticker_data n (data\<lparr>ticker_close := (ticker_close data)(c := v)\<rparr>) c' = ticker_data n data c'"
  by (simp add: ticker_data_def)

lemma filter_map_resolve:
  "filter (\<lambda>r. code r \<noteq> c) (map (resolve n data) stocks)
     = map (resolve n data) (filter (\<lambda>s. code s \<noteq> c) stocks)"
  by (induction stocks) (simp_all add: resolve_stock_fields)

lemma nth_last_two:
  assumes "2 \<le> length xs"
  shows "xs ! (length xs - 1) = last xs \<and> xs ! (length xs - 2) = last (butlast xs)"
proof
  note two = assms
  then have ne: "xs \<noteq> []" by auto
  have "length (butlast xs) \<noteq> 0" using two by simp
  then have bne: "butlast xs \<noteq> []" by (simp del: length_butlast)
  show "xs ! (length xs - 1) = last xs"
    using ne by (simp add: last_conv_nth)
  have "last (butlast xs) = butlast xs ! (length (butlast xs) - 1)"
    using bne by (rule last_conv_nth)
  also have "\<dots> = xs ! (length xs - 2)"
    using two by (simp add: nth_butlast numeral_2_eq_2)
  finally show "xs ! (length xs - 2) = last (butlast xs)" by simp
qed

text \<open>
  C4. Failure isolation. Whatever the roster and the batch, \<^verbatim>\<open>fetch_price_data\<close>
  returns one result per stock. If the symbol \<open>c\<close> is bad (its read raises, or fewer
  than two closes are left), every stock with that code gets \<open>price = None\<close> and
  \<open>change_pct = None\<close>; the result of every other stock does not depend on what the
  batch holds for \<open>c\<close>; and a run on the roster without \<open>c\<close>, on any batch that gives
  the remaining symbols the columns they had, returns the results of the other stocks
  as they were. The witness is a roster of two with one missing ticker, against the
  run on the other stock alone.
\<close>

theorem failure_isolation:
  assumes bad: "bad_symbol (length stocks) data c"
  shows "length (fetch_price_data data stocks) = length stocks
    \<and> (\<forall>i < length stocks. code (stocks ! i) = c \<longrightarrow>
          fetch_price_data data stocks ! i = with_price (stocks ! i) None None)
    \<and> (\<forall>i < length stocks. code (stocks ! i) \<noteq> c \<longrightarrow>
          (\<forall>v. fetch_price_data (data\<lparr>ticker_close := (ticker_close data)(c := v)\<rparr>) stocks ! i
                 = fetch_price_data data stocks ! i))
    \<and> (\<forall>data'.
          (\<forall>s \<in> set stocks. code s \<noteq> c \<longrightarrow>
              ticker_data (length (filter (\<lambda>s. code s \<noteq> c) stocks)) data' (code s)
                = ticker_data (length stocks) data (code s)) \<longrightarrow>
          fetch_price_data data' (filter (\<lambda>s. code s \<noteq> c) stocks)
            = filter (\<lambda>r. code r \<noteq> c) (fetch_price_data data stocks))"
proof (intro conjI allI impI)
  show "length (fetch_price_data data stocks) = length stocks"
    by (simp add: fetch_price_data_map)
next
  fix i assume "i < length stocks" and "code (stocks ! i) = c"
  with bad show "fetch_price_data data stocks ! i = with_price (stocks ! i) None None"
    by (simp add: fetch_price_data_map resolve_bad)
next
  fix i v assume i: "i < length stocks" and "code (stocks ! i) \<noteq> c"
  then have "resolve (length stocks) (data\<lparr>ticker_close := (ticker_close data)(c := v)\<rparr>) (stocks ! i)
      = resolve (length stocks) data (stocks ! i)"
    by (intro resolve_same_column ticker_data_upd)
  with i
  show "fetch_price_data (data\<lparr>ticker_close := (ticker_close data)(c := v)\<rparr>) stocks ! i
      = fetch_price_data data stocks ! i"
    by (simp add: fetch_price_data_map)
next
  fix data'
  let ?rest = "filter (\<lambda>s. code s \<noteq> c) stocks"
  assume same: "\<forall>s \<in> set stocks. code s \<noteq> c \<longrightarrow>
      ticker_data (length ?rest) data' (code s) = ticker_data (length stocks) data (code s)"
  have "map (resolve (length ?rest) data') ?rest = map (resolve (length stocks) data) ?rest"
  proof (rule map_cong [OF refl])
    fix s assume "s \<in> set ?rest"
    then have "s \<in> set stocks" and "code s \<noteq> c" by simp_all
    with same show "resolve (length ?rest) data' s = resolve (length stocks) data s"
      by (intro resolve_same_column) blast
  qed
  then show "fetch_price_data data' ?rest = filter (\<lambda>r. code r \<noteq> c) (fetch_price_data data stocks)"
    by (simp add: fetch_price_data_map filter_map_resolve)
qed

theorem failure_isolation_witness:
  "bad_symbol (length pair_roster) pair_batch ''0000.T''
   \<and> length (fetch_price_data pair_batch pair_roster) = 2
   \<and> fetch_price_data pair_batch pair_roster ! 1 = with_price (pair_roster ! 1) None None
   \<and> fetch_price_data (pair_batch\<lparr>ticker_close := (ticker_close pair_batch)(''0000.T'' := Inr [Fin 1, Fin 2])\<rparr>) pair_roster ! 0
       = fetch_price_data pair_batch pair_roster ! 0
   \<and> filter (\<lambda>s. code s \<noteq> ''0000.T'') pair_roster = one_roster
   \<and> fetch_price_data one_batch one_roster
       = filter (\<lambda>r. code r \<noteq> ''0000.T'') (fetch_price_data pair_batch pair_roster)
   \<and> price (fetch_price_data pair_batch pair_roster ! 0) = Some (Fin 105)"
proof -
  have bad: "bad_symbol (length pair_roster) pair_batch ''0000.T''"
    by (simp add: bad_symbol_def ticker_data_def pair_batch_def pair_roster_def)
  have len: "length pair_roster = 2" by (simp add: pair_roster_def)
  have c0: "code (pair_roster ! 0) \<noteq> ''0000.T''" and c1: "code (pair_roster ! 1) = ''0000.T''"
    by (simp_all add: pair_roster_def)
  have flt: "filter (\<lambda>s. code s \<noteq> ''0000.T'') pair_roster = one_roster"
    by (simp add: pair_roster_def one_roster_def)
  have same: "\<forall>s \<in> set pair_roster. code s \<noteq> ''0000.T'' \<longrightarrow>
      ticker_data (length (filter (\<lambda>s. code s \<noteq> ''0000.T'') pair_roster)) one_batch (code s)
        = ticker_data (length pair_roster) pair_batch (code s)"
    unfolding flt by (simp add: pair_roster_def one_roster_def ticker_data_def one_batch_def pair_batch_def)
  have p: "price (fetch_price_data pair_batch pair_roster ! 0) = Some (Fin 105)"
    by (simp add: fetch_price_data_map pair_roster_def pair_batch_def resolve_def try_body_def
        ticker_data_def with_price_def Let_def)
  from failure_isolation [OF bad] same
  have rm: "fetch_price_data one_batch (filter (\<lambda>s. code s \<noteq> ''0000.T'') pair_roster)
      = filter (\<lambda>r. code r \<noteq> ''0000.T'') (fetch_price_data pair_batch pair_roster)"
    by blast
  from failure_isolation [OF bad] bad len c0 c1 p rm flt show ?thesis
    by simp
qed

text \<open>
  C5. The computation of the resolver. For a stock whose column is read without an
  error and keeps at least two closes after the missing entries are dropped, the price
  is the last close and the change is \<open>(last - previous) / previous * 100\<close>, computed
  as the script computes it: the float subtraction, the float division and the float
  multiplication by \<open>100.0\<close>, each rounded to binary64. The witness is the roster of one
  symbol with the closes \<open>[100, 100, 105]\<close>: price \<open>105\<close>, change \<open>5.0\<close>, dark green with
  white text.
\<close>

theorem resolver_computation:
  assumes i: "i < length stocks"
    and col: "ticker_data (length stocks) data (code (stocks ! i)) = Inr col"
    and two: "2 \<le> length (dropna col)"
  shows "price (fetch_price_data data stocks ! i) = Some (last (dropna col))
    \<and> change_pct (fetch_price_data data stocks ! i)
        = Some (fmul (fdiv (fsub (last (dropna col)) (last (butlast (dropna col))))
                           (last (butlast (dropna col))))
                     (Fin 100))"
proof -
  let ?cs = "dropna col"
  have r: "fetch_price_data data stocks ! i =
      with_price (stocks ! i) (Some (last ?cs)) (Some (pct_change (last (butlast ?cs)) (last ?cs)))"
    using i resolve_good [OF col two] nth_last_two [OF two]
    by (simp add: fetch_price_data_map)
  show ?thesis
    by (simp add: r with_price_def pct_change_def)
qed

theorem resolver_computation_witness:
  "price (fetch_price_data one_batch one_roster ! 0) = Some (Fin 105)
   \<and> change_pct (fetch_price_data one_batch one_roster ! 0) = Some (Fin 5)
   \<and> classify (change_pct (fetch_price_data one_batch one_roster ! 0)) = (dark_green, white)"
proof -
  have i: "0 < length one_roster" by (simp add: one_roster_def)
  have col: "ticker_data (length one_roster) one_batch (code (one_roster ! 0))
      = Inr [Fin 100, Fin 100, Fin 105]"
    by (simp add: ticker_data_def one_roster_def one_batch_def)
  have two: "2 \<le> length (dropna [Fin 100, Fin 100, Fin 105])" by simp
  have c: "fmul (fdiv (fsub (Fin 105) (Fin 100)) (Fin 100)) (Fin 100) = Fin 5"
    using pct_change_100_105 by (simp add: pct_change_def)
  from resolver_computation [OF i col two] c
  show ?thesis
    by (simp add: classify_def get_color_def get_text_color_def colour_defs)
qed

text \<open>
  C9. In every result of \<^verbatim>\<open>fetch_price_data\<close> the price and the change are both
  present or both absent.
\<close>

theorem price_and_change_together:
  "r \<in> set (fetch_price_data data stocks) \<Longrightarrow> (price r = None) = (change_pct r = None)"
  by (auto simp: fetch_price_data_map resolve_both)

theorem price_and_change_together_witness:
  "fetch_price_data demo_batch demo_roster ! 0 \<in> set (fetch_price_data demo_batch demo_roster)
   \<and> price (fetch_price_data demo_batch demo_roster ! 0) = Some (Fin 105)
   \<and> change_pct (fetch_price_data demo_batch demo_roster ! 0) \<noteq> None
   \<and> fetch_price_data demo_batch demo_roster ! 1 \<in> set (fetch_price_data demo_batch demo_roster)
   \<and> price (fetch_price_data demo_batch demo_roster ! 1) = None
   \<and> change_pct (fetch_price_data demo_batch demo_roster ! 1) = None"
proof -
  let ?rs = "fetch_price_data demo_batch demo_roster"
  have len: "length ?rs = 3" by (simp add: fetch_price_data_map demo_roster_def)
  have m0: "?rs ! 0 \<in> set ?rs" and m1: "?rs ! 1 \<in> set ?rs"
    using len by (simp_all del: One_nat_def)
  have p0: "price (?rs ! 0) = Some (Fin 105)"
    by (simp add: fetch_price_data_map demo_roster_def demo_batch_def resolve_def try_body_def
        ticker_data_def with_price_def Let_def)
  have p1: "price (?rs ! 1) = None"
    by (simp add: fetch_price_data_map demo_roster_def demo_batch_def resolve_def try_body_def
        ticker_data_def with_price_def Let_def)
  from price_and_change_together [OF m0] price_and_change_together [OF m1] m0 m1 p0 p1
  show ?thesis by simp
qed

text \<open>
  C10. The roster is preserved: the results, cut back to the keys of a stock
  (\<open>code\<close>, \<open>name\<close>, \<open>sector\<close>), are the roster itself, stock by stock and in its order.
  A result has the two keys \<open>price\<close> and \<open>change_pct\<close> and no other beyond those.
\<close>

theorem roster_preserved:
  "map stock.truncate (fetch_price_data data stocks) = stocks"
  by (simp add: fetch_price_data_map truncate_resolve map_idI)

section \<open>Renderer: results\<close>

lemma sector_rows_sorted: "sorted (map code (sector_rows sectors s))"
  by (simp add: sector_rows_def)

lemma sector_order_sorted:
  "sorted (map (\<lambda>s. min_code (members sectors s)) (sector_order sectors))"
  by (simp add: sector_order_def)

lemma replace_dot_T_codes:
  "replace_dot_T ''999.T'' = ''999''" "replace_dot_T ''1000.T'' = ''1000''"
  by simp_all

lemma round64_small:
  "round64 999 = Fin 999" "round64 1000 = Fin 1000" "round64 (- 1) = Fin (- 1)"
  by (subst round64_eval [of 9], simp_all add: round64_simps,
      subst round64_eval [of 9], simp_all add: round64_simps,
      subst round64_eval [of 0], simp_all add: round64_simps)

lemma parseInt_codes: "parseInt ''999'' = Fin 999" "parseInt ''1000'' = Fin 1000"
  by (simp_all add: parseInt_def ascii_space_def space2_def space3_def radix_digit_def
      radix_value_def digit_value_def Let_def round64_small)

lemma Object_keys_letters: "Object_keys [(''A'', xs), (''B'', ys)] = [''A'', ''B'']"
  by (simp add: Object_keys_def is_array_index_def radix_digit_def digit_value_def)

text \<open>
  C3. The order of the sectors. The server orders the sectors by the smallest code
  \<^emph>\<open>string\<close> of each (\<open>sector_order_sorted\<close>), the page's \<^verbatim>\<open>sortBy('sector')\<close> by the
  smallest \<^emph>\<open>number\<close> that \<^verbatim>\<open>parseInt\<close> reads. For the codes \<open>999.T\<close> (sector \<open>A\<close>) and
  \<open>1000.T\<close> (sector \<open>B\<close>) the server puts \<open>B\<close> first, since \<open>"1000.T" < "999.T"\<close> as
  strings, while the numeric order, which the page follows, puts \<open>A\<close> first.
\<close>

theorem sector_order_server_vs_client:
  "sector_order (sectors_of mixed_results) = [''B'', ''A'']
   \<and> map fst (tiles_by_sector plain_py mixed_results) = [''B'', ''A'']
   \<and> (case groups_of (json_data mixed_results) of
         Inl e \<Rightarrow> False
       | Inr groups \<Rightarrow>
           min_parsed groups ''A'' = Fin 999 \<and> min_parsed groups ''B'' = Fin 1000
           \<and> sectorOrder groups = [''A'', ''B''])"
proof -
  let ?a = "\<lparr>code = ''999.T'', name = ''First'', sector = ''A'', price = None, change_pct = None\<rparr>"
  let ?b = "\<lparr>code = ''1000.T'', name = ''Second'', sector = ''B'', price = None, change_pct = None\<rparr>"
  let ?ja = "\<lparr>code = ''999'', name = ''First'', sector = ''A'', price = None, change_pct = None\<rparr>"
  let ?jb = "\<lparr>code = ''1000'', name = ''Second'', sector = ''B'', price = None, change_pct = None\<rparr>"
  have s: "sectors_of mixed_results = [(''A'', [?a]), (''B'', [?b])]"
    by (simp add: sectors_of_def mixed_results_def)
  have so: "sector_order (sectors_of mixed_results) = [''B'', ''A'']"
    unfolding s by (simp add: sector_order_def members_def min_code_def)
  have g: "groups_of (json_data mixed_results) = Inr [(''A'', [?ja]), (''B'', [?jb])]"
    by (simp add: groups_of_def json_data_def mixed_results_def object_prototype_names_def)
  have mA: "min_parsed [(''A'', [?ja]), (''B'', [?jb])] ''A'' = Fin 999"
    by (simp add: min_parsed_def members_def Math_min_def parseInt_codes)
  have mB: "min_parsed [(''A'', [?ja]), (''B'', [?jb])] ''B'' = Fin 1000"
    by (simp add: min_parsed_def members_def Math_min_def parseInt_codes)
  have d: "fsub (Fin 999) (Fin 1000) = Fin (- 1)"
    by (simp add: fsub_Fin round64_small)
  have co: "sectorOrder [(''A'', [?ja]), (''B'', [?jb])] = [''A'', ''B'']"
    by (simp add: sectorOrder_def js_sort_def Object_keys_letters mA mB d)
  have tb: "map fst (tiles_by_sector plain_py mixed_results) = [''B'', ''A'']"
    by (simp add: tiles_by_sector_def Let_def so comp_def)
  from so tb mA mB co show ?thesis by (simp add: g)
qed

lemma set_js_insert: "set (js_insert cmp x ys) = insert x (set ys)"
  by (induction ys) auto

lemma js_sort_same_elements: "set (js_sort cmp xs) = set xs \<and> length (js_sort cmp xs) = length xs"
proof (induction xs)
  case Nil
  show ?case by (simp add: js_sort_def)
next
  case (Cons x xs)
  have len: "length (js_insert cmp x ys) = Suc (length ys)" for ys
    by (induction ys) simp_all
  from Cons show ?case
    by (simp add: js_sort_def set_js_insert len)
qed

lemma or_zero_absent_as_zero: "or_zero (change_pct (absent_as_zero s)) = or_zero (change_pct s)"
  by (simp add: absent_as_zero_def split: option.splits)

lemma change_desc_absent_as_zero: "change_desc (absent_as_zero a) (absent_as_zero b) = change_desc a b"
  by (simp add: change_desc_def or_zero_absent_as_zero)

lemma change_asc_absent_as_zero: "change_asc (absent_as_zero a) (absent_as_zero b) = change_asc a b"
  by (simp add: change_asc_def or_zero_absent_as_zero)

lemma js_insert_map:
  assumes "\<And>a b. cmp (f a) (f b) = cmp a b"
  shows "js_insert cmp (f x) (map f ys) = map f (js_insert cmp x ys)"
  by (induction ys) (simp_all add: assms)

lemma js_sort_map:
  assumes "\<And>a b. cmp (f a) (f b) = cmp a b"
  shows "js_sort cmp (map f xs) = map f (js_sort cmp xs)"
  unfolding js_sort_def
  by (induction xs) (simp_all add: js_insert_map [of cmp f, OF assms])

text \<open>
  C6. Absent sorts as zero. In the two change-ordered modes of \<^verbatim>\<open>sortBy\<close>, replacing
  every absent \<^verbatim>\<open>change_pct\<close> of the dataset by the number \<open>0\<close> leaves every record at
  the place it had: the sorted array of the replaced dataset is the sorted array of
  the dataset, with the same replacement.
\<close>

theorem absent_sorts_as_zero:
  "sorted_flat J ''change_desc'' (map absent_as_zero stockData)
     = map absent_as_zero (sorted_flat J ''change_desc'' stockData)
   \<and> sorted_flat J ''change_asc'' (map absent_as_zero stockData)
     = map absent_as_zero (sorted_flat J ''change_asc'' stockData)"
  by (simp add: sorted_flat_def js_sort_map change_desc_absent_as_zero change_asc_absent_as_zero)

lemma tile_absent:
  "tile F (with_price s None None) =
     ''<div class=\"tile\" data-sector=\"'' @ sector s @ ''\" data-code=\"''
     @ replace_dot_T (code s) @ ''\" data-change=\"0\" ''
     @ ''style=\"background-color:#9E9E9E;color:#FFFFFF\">''
     @ ''<div class=\"tile-name\">'' @ name s @ ''</div>''
     @ ''<div class=\"tile-code\">'' @ replace_dot_T (code s) @ ''</div>''
     @ ''<div class=\"tile-change\">N/A</div>''
     @ ''<div class=\"tile-price\"></div></div>''"
  by (simp add: tile_def Let_def with_price_def get_color_def get_text_color_def
      data_change_def change_str_def price_str_def)

lemma json_data_nth:
  "i < length results \<Longrightarrow>
   json_data results ! i =
     \<lparr>code = replace_dot_T (code (results ! i)), name = name (results ! i),
      sector = sector (results ! i), price = price (results ! i),
      change_pct = change_pct (results ! i)\<rparr>"
  by (simp add: json_data_def)

lemma makeTile_absent:
  "price s = None \<Longrightarrow> change_pct s = None \<Longrightarrow>
   makeTile J s =
     ''<div class=\"tile\" style=\"background-color:#9E9E9E;color:#FFFFFF\">''
     @ ''<div class=\"tile-name\">'' @ name s @ ''</div>''
     @ ''<div class=\"tile-code\">'' @ code s @ ''</div>''
     @ ''<div class=\"tile-change\">N/A</div>''
     @ ''<div class=\"tile-price\"></div></div>''"
  by (simp add: makeTile_def Let_def js_change_def js_price_def)

text \<open>
  C7, as amended. For a symbol whose observation is absent (its read of the batch
  raises, or fewer than two closes are left), the tile has the neutral-gray background
  and white text, its change text is \<open>N/A\<close> and its price text is empty, on the server
  (\<^verbatim>\<open>generate_html\<close>) and in the page (\<^verbatim>\<open>makeTile\<close> on the record of the embedded
  dataset). As the claim is written, \<open>N/A\<close> would be the price text; the code writes it
  as the change text and leaves the price text empty.
\<close>

theorem absent_rendering:
  assumes i: "i < length stocks"
    and bad: "bad_symbol (length stocks) data (code (stocks ! i))"
  shows "(let r = fetch_price_data data stocks ! i;
              s = json_data (fetch_price_data data stocks) ! i
          in get_color (change_pct r) = neutral_gray \<and> get_text_color (change_pct r) = white
           \<and> change_str F r = ''N/A'' \<and> price_str F r = ''''
           \<and> tile F r =
               ''<div class=\"tile\" data-sector=\"'' @ sector (stocks ! i) @ ''\" data-code=\"''
               @ replace_dot_T (code (stocks ! i)) @ ''\" data-change=\"0\" ''
               @ ''style=\"background-color:#9E9E9E;color:#FFFFFF\">''
               @ ''<div class=\"tile-name\">'' @ name (stocks ! i) @ ''</div>''
               @ ''<div class=\"tile-code\">'' @ replace_dot_T (code (stocks ! i)) @ ''</div>''
               @ ''<div class=\"tile-change\">N/A</div>''
               @ ''<div class=\"tile-price\"></div></div>''
           \<and> getColor (change_pct s) = neutral_gray \<and> getTextColor (change_pct s) = white
           \<and> js_change J s = ''N/A'' \<and> js_price J s = ''''
           \<and> makeTile J s =
               ''<div class=\"tile\" style=\"background-color:#9E9E9E;color:#FFFFFF\">''
               @ ''<div class=\"tile-name\">'' @ name (stocks ! i) @ ''</div>''
               @ ''<div class=\"tile-code\">'' @ replace_dot_T (code (stocks ! i)) @ ''</div>''
               @ ''<div class=\"tile-change\">N/A</div>''
               @ ''<div class=\"tile-price\"></div></div>'')"
proof -
  let ?rs = "fetch_price_data data stocks"
  have r: "?rs ! i = with_price (stocks ! i) None None"
    using i bad by (simp add: fetch_price_data_map resolve_bad)
  have len: "i < length ?rs"
    using i by (simp add: fetch_price_data_map)
  have s: "json_data ?rs ! i =
      \<lparr>code = replace_dot_T (code (stocks ! i)), name = name (stocks ! i),
       sector = sector (stocks ! i), price = None, change_pct = None\<rparr>"
    unfolding json_data_nth [OF len] r by (simp add: with_price_def)
  have server: "get_color (change_pct (?rs ! i)) = neutral_gray"
    "get_text_color (change_pct (?rs ! i)) = white"
    "change_str F (?rs ! i) = ''N/A''" "price_str F (?rs ! i) = ''''"
    unfolding r
    by (simp_all add: with_price_def get_color_def get_text_color_def change_str_def
        price_str_def colour_defs)
  have client: "getColor (change_pct (json_data ?rs ! i)) = neutral_gray"
    "getTextColor (change_pct (json_data ?rs ! i)) = white"
    "js_change J (json_data ?rs ! i) = ''N/A''" "js_price J (json_data ?rs ! i) = ''''"
    unfolding s by (simp_all add: js_change_def js_price_def colour_defs)
  have t: "tile F (?rs ! i) = tile F (with_price (stocks ! i) None None)"
    by (simp only: r)
  have m: "makeTile J (json_data ?rs ! i) =
      ''<div class=\"tile\" style=\"background-color:#9E9E9E;color:#FFFFFF\">''
      @ ''<div class=\"tile-name\">'' @ name (stocks ! i) @ ''</div>''
      @ ''<div class=\"tile-code\">'' @ replace_dot_T (code (stocks ! i)) @ ''</div>''
      @ ''<div class=\"tile-change\">N/A</div>''
      @ ''<div class=\"tile-price\"></div></div>''"
    unfolding s by (simp add: makeTile_absent)
  show ?thesis
    unfolding Let_def t tile_absent
    using server client m by simp
qed

theorem absent_rendering_witness:
  "bad_symbol (length demo_roster) demo_batch (code (demo_roster ! 2))
   \<and> tile plain_py (fetch_price_data demo_batch demo_roster ! 2) =
       ''<div class=\"tile\" data-sector=\"Telecom\" data-code=\"9984\" data-change=\"0\" style=\"background-color:#9E9E9E;color:#FFFFFF\"><div class=\"tile-name\">SoftBank</div><div class=\"tile-code\">9984</div><div class=\"tile-change\">N/A</div><div class=\"tile-price\"></div></div>''
   \<and> makeTile plain_js (json_data (fetch_price_data demo_batch demo_roster) ! 2) =
       ''<div class=\"tile\" style=\"background-color:#9E9E9E;color:#FFFFFF\"><div class=\"tile-name\">SoftBank</div><div class=\"tile-code\">9984</div><div class=\"tile-change\">N/A</div><div class=\"tile-price\"></div></div>''"
proof -
  have i: "2 < length demo_roster" by (simp add: demo_roster_def)
  have bad: "bad_symbol (length demo_roster) demo_batch (code (demo_roster ! 2))"
    by (simp add: bad_symbol_def ticker_data_def demo_batch_def demo_roster_def)
  have f: "sector (demo_roster ! 2) = ''Telecom''" "name (demo_roster ! 2) = ''SoftBank''"
    "replace_dot_T (code (demo_roster ! 2)) = ''9984''"
    by (simp_all add: demo_roster_def)
  from absent_rendering [OF i bad, of plain_py plain_js] bad
  show ?thesis
    unfolding Let_def f by simp
qed

text \<open>The price text of an absent symbol is empty, not \<open>N/A\<close>, in both views.\<close>

theorem absent_price_text_not_NA:
  "price_str plain_py (fetch_price_data demo_batch demo_roster ! 2) = ''''
   \<and> price_str plain_py (fetch_price_data demo_batch demo_roster ! 2) \<noteq> ''N/A''
   \<and> js_price plain_js (json_data (fetch_price_data demo_batch demo_roster) ! 2) = ''''
   \<and> js_price plain_js (json_data (fetch_price_data demo_batch demo_roster) ! 2) \<noteq> ''N/A''"
proof -
  have r: "fetch_price_data demo_batch demo_roster ! 2 = with_price (demo_roster ! 2) None None"
    by (simp add: fetch_price_data_map demo_roster_def demo_batch_def resolve_def try_body_def
        ticker_data_def with_price_def Let_def)
  have len: "2 < length (fetch_price_data demo_batch demo_roster)"
    by (simp add: fetch_price_data_map demo_roster_def)
  show ?thesis
    unfolding json_data_nth [OF len] unfolding r
    by (simp add: price_str_def js_price_def with_price_def)
qed

text \<open>What \<^verbatim>\<open>parseInt\<close> reads besides plain decimal digits.\<close>

lemma parseInt_forms:
  "parseInt ''285A'' = Fin 285" "parseInt '' 42'' = Fin 42" "parseInt ''-7'' = Fin (- 7)"
  "parseInt ''0x1F'' = Fin 31" "parseInt ''-0'' = NegZero" "parseInt ''A1'' = NaN"
  "parseInt '''' = NaN"
proof -
  have r: "round64 285 = Fin 285" "round64 42 = Fin 42" "round64 (- 7) = Fin (- 7)"
    "round64 31 = Fin 31"
    by (subst round64_eval [of 8], simp_all add: round64_simps,
        subst round64_eval [of 5], simp_all add: round64_simps,
        subst round64_eval [of 2], simp_all add: round64_simps,
        subst round64_eval [of 4], simp_all add: round64_simps)
  show "parseInt ''285A'' = Fin 285" "parseInt '' 42'' = Fin 42" "parseInt ''-7'' = Fin (- 7)"
    "parseInt ''0x1F'' = Fin 31" "parseInt ''-0'' = NegZero" "parseInt ''A1'' = NaN"
    "parseInt '''' = NaN"
    by (simp_all add: parseInt_def ascii_space_def space2_def space3_def radix_digit_def
        radix_value_def digit_value_def zero_of_def Let_def r)
qed

text \<open>A sector named like a member of \<^verbatim>\<open>Object.prototype\<close> ends \<^verbatim>\<open>sortBy('sector')\<close> with
  an error, and keys written as array indices come first in \<^verbatim>\<open>Object.keys\<close>.\<close>

lemma groups_of_prototype_name:
  "groups_of [\<lparr>code = ''1'', name = ''n'', sector = ''constructor'', price = None,
               change_pct = None\<rparr>] = Inl TypeError"
  by (simp add: groups_of_def object_prototype_names_def)

lemma sortBy_prototype_name:
  "sortBy J ''sector'' [\<lparr>code = ''1'', name = ''n'', sector = ''constructor'', price = None,
               change_pct = None\<rparr>] = Inl TypeError"
  by (simp add: sortBy_def groups_of_prototype_name)

lemma Object_keys_indices_first:
  "Object_keys [(''10'', xs), (''b'', ys), (''2'', zs), (''07'', ws)] = [''2'', ''10'', ''b'', ''07'']"
  by (simp add: Object_keys_def is_array_index_def radix_digit_def digit_value_def
      decimal_value_def radix_value_def)

end
